theory Spec2Isabelle
  imports Complex_Main "HOL-Library.Word"
begin

section \<open>Values shared by the coordinator and the sender\<close>

text \<open>
  The repository is a Flask coordinator (\<^verbatim>\<open>coordinator/app.py\<close>) and a command-line sender
  (\<^verbatim>\<open>sender/send_file.py\<close>). The views of the coordinator are embedded as state-passing
  functions; the sender is a program that the Python compiler rejects, and it is embedded
  as that.

  \<^item> Raw chunk data (Python \<^verbatim>\<open>bytes\<close>) is a list of 8-bit words.
  \<^item> The numbers that the source computes in floating point (the speeds, which are the
    integer 0 when no time has passed, and the progress percentage) are not evaluated: each
    of them is the one value \<open>Float\<close>, in JSON \<open>JFloat\<close>, and no statement below speaks of the
    value of such a number.
  \<^item> \<^verbatim>\<open>hashlib.sha256(data).hexdigest()\<close> is library code: every function that hashes takes the
    digest function as its first argument \<open>H\<close>, and every theorem holds for an arbitrary \<open>H\<close>.
  \<^item> A JSON object is an association list in the order the source writes its keys.
\<close>

type_synonym bytes = "8 word list"

datatype float = Float

datatype json = JStr string | JInt int | JFloat | JBool bool | JList "json list"

type_synonym jobject = "(string \<times> json) list"

text \<open>
  What a Flask view hands back: \<^verbatim>\<open>jsonify(...)\<close> with its status code, the attachment served by
  \<^verbatim>\<open>send_from_directory\<close> (download name and content), or an exception that no handler of
  the view catches (Flask answers it with its own HTTP 500 page).
\<close>

datatype response = Json nat jobject | Attachment string bytes | Unhandled

type_synonym event = "string \<times> jobject"

subsection \<open>Python's integer formatting and parsing\<close>


definition digit_char :: "nat \<Rightarrow> char" where
  "digit_char d = char_of (48 + d)"

function str_nat :: "nat \<Rightarrow> string" where
  "str_nat n = (if n < 10 then [digit_char n] else str_nat (n div 10) @ [digit_char (n mod 10)])"
  by pat_completeness auto
termination
  by (relation "measure (\<lambda>n. n)") auto

declare str_nat.simps [simp del]

text \<open>\<^verbatim>\<open>str(i)\<close> and the f-string field \<^verbatim>\<open>{i}\<close> of an \<^verbatim>\<open>int\<close>.\<close>

definition str_int :: "int \<Rightarrow> string" where
  "str_int i = (if i < 0 then CHR ''-'' # str_nat (nat (- i)) else str_nat (nat i))"

text \<open>The f-string field \<^verbatim>\<open>{i:06d}\<close>: zero padding to width six, the sign counted in the width.\<close>

definition fmt_06d :: "int \<Rightarrow> string" where
  "fmt_06d i =
     (let digits = str_nat (nat \<bar>i\<bar>);
          sign = (if i < 0 then ''-'' else '''')
      in sign @ replicate (6 - length sign - length digits) CHR ''0'' @ digits)"


text \<open>
  The characters that \<^verbatim>\<open>int()\<close> strips from the ends of an ASCII string: tab, line feed,
  vertical tab, form feed, carriage return and the space.
\<close>

definition is_space :: "char \<Rightarrow> bool" where
  "is_space c = (let k = (of_char c :: nat) in (9 \<le> k \<and> k \<le> 13) \<or> k = 32)"

definition is_digit :: "char \<Rightarrow> bool" where
  "is_digit c = (let k = (of_char c :: nat) in 48 \<le> k \<and> k \<le> 57)"

definition strip :: "string \<Rightarrow> string" where
  "strip s = rev (dropWhile is_space (rev (dropWhile is_space s)))"

text \<open>
  The digits of an integer literal as \<^verbatim>\<open>int()\<close> reads them: at least one digit, single
  underscores allowed between digits only. The flag says whether the previous character was
  a digit.
\<close>

fun parse_digits :: "bool \<Rightarrow> nat \<Rightarrow> string \<Rightarrow> nat option" where
  "parse_digits prev acc [] = (if prev then Some acc else None)"
| "parse_digits prev acc (c # cs) =
     (if is_digit c then parse_digits True (acc * 10 + ((of_char c :: nat) - 48)) cs
      else if c = CHR ''_'' \<and> prev then parse_digits False acc cs
      else None)"

text \<open>
  \<^verbatim>\<open>int(s)\<close> on a string of ASCII characters: \<open>None\<close> is \<^verbatim>\<open>ValueError\<close>. Surrounding white
  space is dropped, one sign is allowed, and a text of more than 4300 digits is refused
  (the interpreter's limit on the conversion of integer strings).
\<close>

definition read_digits :: "string \<Rightarrow> nat option" where
  "read_digits cs = (if length (filter is_digit cs) > 4300 then None else parse_digits False 0 cs)"

definition py_int :: "string \<Rightarrow> int option" where
  "py_int s =
     (case strip s of
        [] \<Rightarrow> None
      | c # cs \<Rightarrow>
          if c = CHR ''-'' then map_option (\<lambda>n. - int n) (read_digits cs)
          else if c = CHR ''+'' then map_option int (read_digits cs)
          else map_option int (read_digits (c # cs)))"

section \<open>The coordinator (\<^verbatim>\<open>coordinator/app.py\<close>)\<close>

subsection \<open>State\<close>

text \<open>
  The SQLite tables are modelled with the columns of the migration-aware \<^verbatim>\<open>init_db\<close> (the
  second definition, which runs last). A row of \<^verbatim>\<open>manifests\<close> is found by its primary key
  \<^verbatim>\<open>file_id\<close>. The table \<^verbatim>\<open>chunks\<close> is the list of its rows in rowid order, since
  \<^verbatim>\<open>/upload/missing\<close> reads it without \<^verbatim>\<open>ORDER BY\<close>: SQLite answers that query from the table or
  from the index on \<^verbatim>\<open>(file_id, received)\<close>, and both give the rows of one file in rowid order.
  Instants (\<^verbatim>\<open>CURRENT_TIMESTAMP\<close>, \<^verbatim>\<open>datetime.now()\<close>) are rationals; the views store them
  and never compare them.

  The module is described as a WSGI server or \<^verbatim>\<open>flask run\<close> loads it: imported, with every
  statement of the file executed, on a database that this module has created. Started as a
  script (\<^verbatim>\<open>python app.py\<close>) the block under \<^verbatim>\<open>__main__\<close> serves requests at line 460, before
  \<^verbatim>\<open>get_db_connection\<close> is defined at line 467, and every view that calls it raises
  \<^verbatim>\<open>NameError\<close>; that way of starting the coordinator is not described here.
\<close>

record manifest_row =
  m_filename :: string
  m_size :: int
  m_chunk_size :: int
  m_total_chunks :: nat
  m_merkle :: string
  m_priority :: string
  m_status :: string
  m_created_at :: rat
  m_completed_at :: "rat option"

record chunk_row =
  c_file_id :: string
  c_chunk_id :: int
  c_checksum :: string
  c_received :: int
  c_received_at :: "rat option"
  c_retry_count :: int

text \<open>A row of the table \<^verbatim>\<open>transfer_stats\<close>.\<close>

record stats_row =
  ts_start_time :: "rat option"
  ts_end_time :: "rat option"
  ts_total_bytes :: "int option"
  ts_chunks_received :: "int option"
  ts_errors :: int
  ts_avg_speed :: "float option"

text \<open>
  An entry of the module-level \<^verbatim>\<open>transfer_stats = defaultdict(...)\<close>. Reading a key that is
  absent yields the default entry, which is all the source ever observes of the dictionary.
\<close>

record mem_stats =
  ms_start_time :: "rat option"
  ms_last_activity :: "rat option"
  ms_bytes_received :: int
  ms_chunks_received :: int
  ms_errors :: int

definition default_stats :: mem_stats where
  "default_stats =
     \<lparr>ms_start_time = None, ms_last_activity = None, ms_bytes_received = 0,
      ms_chunks_received = 0, ms_errors = 0\<rparr>"

definition stats_of :: "(string \<rightharpoonup> mem_stats) \<Rightarrow> string \<Rightarrow> mem_stats" where
  "stats_of d k = (case d k of None \<Rightarrow> default_stats | Some s \<Rightarrow> s)"

text \<open>
  The whole state a request handler reads and writes: the three tables, the in-memory
  dictionary, the files below \<^verbatim>\<open>UPLOAD_DIR\<close> by path, the paths the operating system refuses
  to open for writing, and the Socket.IO events emitted so far (oldest first).
\<close>

record coordinator =
  manifests :: "string \<rightharpoonup> manifest_row"
  chunks :: "chunk_row list"
  stats_table :: "string \<rightharpoonup> stats_row"
  transfer_stats :: "string \<rightharpoonup> mem_stats"
  files :: "string \<rightharpoonup> bytes"
  unwritable :: "string set"
  emitted :: "event list"

definition empty_coordinator :: coordinator where
  "empty_coordinator =
     \<lparr>manifests = Map.empty, chunks = [], stats_table = Map.empty,
      transfer_stats = Map.empty, files = Map.empty, unwritable = {}, emitted = []\<rparr>"

definition emit :: "string \<Rightarrow> jobject \<Rightarrow> coordinator \<Rightarrow> coordinator" where
  "emit name payload st = st\<lparr>emitted := emitted st @ [(name, payload)]\<rparr>"

text \<open>
  Paths are strings, written relative to the directory of \<^verbatim>\<open>app.py\<close>:
  \<^verbatim>\<open>UPLOAD_DIR / file_id / f'chunk_{chunk_id:06d}.bin'\<close> and
  \<^verbatim>\<open>UPLOAD_DIR / f'assembled_{filename}'\<close>.
\<close>

definition chunk_path :: "string \<Rightarrow> int \<Rightarrow> string" where
  "chunk_path file_id chunk_id = ''uploads/'' @ file_id @ ''/chunk_'' @ fmt_06d chunk_id @ ''.bin''"

definition out_path :: "string \<Rightarrow> string" where
  "out_path filename = ''uploads/assembled_'' @ filename"

subsection \<open>\<^verbatim>\<open>POST /upload/init\<close>\<close>

record chunk_meta =
  cm_chunk_id :: int
  cm_size :: int
  cm_checksum :: string

text \<open>
  The JSON body of the request. The five keys the handler indexes are fields of the record;
  \<^verbatim>\<open>priority\<close> is read with \<^verbatim>\<open>data.get('priority', 'normal')\<close>.
\<close>

record init_body =
  ib_file_id :: string
  ib_filename :: string
  ib_size :: int
  ib_chunk_size :: int
  ib_chunks :: "chunk_meta list"
  ib_priority :: "string option"

text \<open>
  \<^verbatim>\<open>INSERT OR REPLACE INTO chunks (file_id, chunk_id, checksum, received) VALUES (?,?,?,0)\<close>:
  a row with the same primary key is deleted, the new row gets a fresh rowid, and the columns
  not named take their defaults.
\<close>

definition new_row :: "string \<Rightarrow> chunk_meta \<Rightarrow> chunk_row" where
  "new_row file_id ch =
     \<lparr>c_file_id = file_id, c_chunk_id = cm_chunk_id ch, c_checksum = cm_checksum ch,
      c_received = 0, c_received_at = None, c_retry_count = 0\<rparr>"

definition insert_or_replace_chunk :: "string \<Rightarrow> chunk_row list \<Rightarrow> chunk_meta \<Rightarrow> chunk_row list" where
  "insert_or_replace_chunk file_id rows ch =
     filter (\<lambda>r. \<not> (c_file_id r = file_id \<and> c_chunk_id r = cm_chunk_id ch)) rows @
     [new_row file_id ch]"


text \<open>
  The \<^verbatim>\<open>sqlite3\<close> module binds a Python \<^verbatim>\<open>int\<close> as a signed 64-bit integer and raises
  \<^verbatim>\<open>OverflowError\<close> for an \<^verbatim>\<open>int\<close> outside that range.
\<close>

definition sqlite_int :: "int \<Rightarrow> bool" where
  "sqlite_int i = (- (2 ^ 63) \<le> i \<and> i < 2 ^ 63)"

text \<open>The integers that the statements of \<^verbatim>\<open>upload_init\<close> bind all fit.\<close>

definition storable :: "init_body \<Rightarrow> bool" where
  "storable data =
     (sqlite_int (ib_size data) \<and> sqlite_int (ib_chunk_size data) \<and>
      list_all (\<lambda>ch. sqlite_int (cm_chunk_id ch)) (ib_chunks data))"

text \<open>
  The view \<^verbatim>\<open>upload_init\<close>. The statements bind \<^verbatim>\<open>size\<close>, \<^verbatim>\<open>chunk_size\<close> and the
  \<^verbatim>\<open>chunk_id\<close> of every listed chunk. When one of them is outside the 64-bit range the
  statement that binds it raises; the view catches nothing, so the transaction is never
  committed, no event is emitted, and Flask answers 500 with the state as it was. Otherwise
  the rows are written, the transaction is committed, the event \<^verbatim>\<open>manifest\<close> is emitted and the
  answer is \<^verbatim>\<open>{'status': 'ok'}\<close>.
\<close>

definition upload_init :: "rat \<Rightarrow> init_body \<Rightarrow> coordinator \<Rightarrow> coordinator \<times> response" where
  "upload_init now data st =
     (let file_id = ib_file_id data;
          filename = ib_filename data;
          size = ib_size data;
          chunk_size = ib_chunk_size data;
          chunks_in = ib_chunks data;
          priority = (case ib_priority data of None \<Rightarrow> ''normal'' | Some p \<Rightarrow> p);
          row = \<lparr>m_filename = filename, m_size = size, m_chunk_size = chunk_size,
                 m_total_chunks = length chunks_in, m_merkle = [], m_priority = priority,
                 m_status = ''active'', m_created_at = now, m_completed_at = None\<rparr>;
          st1 = st\<lparr>manifests := (manifests st)(file_id \<mapsto> row)\<rparr>;
          st2 = st1\<lparr>chunks := foldl (insert_or_replace_chunk file_id) (chunks st1) chunks_in\<rparr>;
          st3 = emit ''manifest''
                  [(''file_id'', JStr file_id), (''filename'', JStr filename), (''size'', JInt size),
                   (''total_chunks'', JInt (int (length chunks_in))), (''priority'', JStr priority)] st2
      in if storable data then (st3, Json 200 [(''status'', JStr ''ok'')])
         else (st, Unhandled))"

subsection \<open>\<^verbatim>\<open>POST /upload/chunk\<close>\<close>

text \<open>
  The multipart form: the three text fields and the file part \<^verbatim>\<open>chunk\<close> (its file name and
  its content), each absent or present.
\<close>

record chunk_form =
  f_file_id :: "string option"
  f_chunk_id :: "string option"
  f_checksum :: "string option"
  f_chunk :: "(string \<times> bytes) option"

text \<open>
  The two readings of \<^verbatim>\<open>datetime.now()\<close> in one request: the one stored in \<^verbatim>\<open>received_at\<close>
  (line 196) and the one stored in \<^verbatim>\<open>last_activity\<close> (line 199). The readings of
  \<^verbatim>\<open>time.time()\<close> enter the floats only.
\<close>

record clock =
  t_mark :: rat
  t_activity :: rat

definition err :: "nat \<Rightarrow> string \<Rightarrow> response" where
  "err code msg = Json code [(''error'', JStr msg)]"

definition lookup_chunk :: "chunk_row list \<Rightarrow> string \<Rightarrow> int \<Rightarrow> chunk_row option" where
  "lookup_chunk rows file_id chunk_id =
     find (\<lambda>r. c_file_id r = file_id \<and> c_chunk_id r = chunk_id) rows"

text \<open>\<^verbatim>\<open>SELECT COUNT(*) FROM chunks WHERE file_id = ? AND received = 1\<close>.\<close>

definition count_received :: "chunk_row list \<Rightarrow> string \<Rightarrow> int" where
  "count_received rows file_id =
     int (length (filter (\<lambda>r. c_file_id r = file_id \<and> c_received r = 1) rows))"

text \<open>
  \<^verbatim>\<open>UPDATE chunks SET received = 1, received_at = ?, retry_count = retry_count + 1
  WHERE file_id = ? AND chunk_id = ?\<close>.
\<close>

definition mark_received :: "rat \<Rightarrow> string \<Rightarrow> int \<Rightarrow> chunk_row list \<Rightarrow> chunk_row list" where
  "mark_received now file_id chunk_id rows =
     map (\<lambda>r. if c_file_id r = file_id \<and> c_chunk_id r = chunk_id
               then r\<lparr>c_received := 1, c_received_at := Some now,
                      c_retry_count := c_retry_count r + 1\<rparr>
               else r) rows"

text \<open>
  \<^verbatim>\<open>UPDATE transfer_stats SET chunks_received = ?, avg_speed = ?, errors = ? WHERE file_id = ?\<close>:
  it changes the row of the file when the table has one.
\<close>

definition update_stats_row ::
  "string \<Rightarrow> int \<Rightarrow> float \<Rightarrow> int \<Rightarrow> (string \<rightharpoonup> stats_row) \<Rightarrow> (string \<rightharpoonup> stats_row)" where
  "update_stats_row file_id n speed errs tbl =
     (case tbl file_id of
        None \<Rightarrow> tbl
      | Some r \<Rightarrow> tbl(file_id \<mapsto> r\<lparr>ts_chunks_received := Some n, ts_avg_speed := Some speed,
                                    ts_errors := errs\<rparr>))"

text \<open>
  Lines 180 to 251 of \<^verbatim>\<open>upload_chunk\<close>: the chunk is new. The file is written first; the row
  update and the statistics follow inside the open transaction, which \<^verbatim>\<open>conn.commit()\<close>
  makes durable. Two expressions on this path can raise, and the handler's
  \<^verbatim>\<open>except Exception\<close> turns both into HTTP 500:
  \<^item> \<^verbatim>\<open>transfer_stats[file_id]['start_time'].timestamp()\<close> when the entry's start time is
    \<^verbatim>\<open>None\<close>: this is before the commit, so the row update is rolled back when the connection
    closes, while the file already written and the in-memory counters stay;
  \<^item> \<^verbatim>\<open>received_count / manifest['total_chunks']\<close> when the manifest has no chunks: this is
    after the commit and after the events.

  The average speed, the chunk speed and the progress percentage are floats. The database
  calls and \<^verbatim>\<open>mkdir\<close> are taken to succeed; the operating system refusing to open the chunk
  file is the set \<open>unwritable\<close>.
\<close>

definition store_chunk ::
  "clock \<Rightarrow> string \<Rightarrow> int \<Rightarrow> bytes \<Rightarrow> manifest_row \<Rightarrow> coordinator \<Rightarrow> coordinator \<times> response" where
  "store_chunk clk file_id chunk_id data manifest st =
     (if chunk_path file_id chunk_id \<in> unwritable st
      then (st, err 500 ''Failed to write chunk to disk'')
      else
        let st1 = st\<lparr>files := (files st)(chunk_path file_id chunk_id \<mapsto> data)\<rparr>;
            rows = mark_received (t_mark clk) file_id chunk_id (chunks st1);
            old = stats_of (transfer_stats st1) file_id;
            ms = old\<lparr>ms_last_activity := Some (t_activity clk),
                     ms_bytes_received := ms_bytes_received old + int (length data),
                     ms_chunks_received := ms_chunks_received old + 1\<rparr>;
            st2 = st1\<lparr>transfer_stats := (transfer_stats st1)(file_id \<mapsto> ms)\<rparr>;
            received_count = count_received rows file_id
        in case ms_start_time ms of
             None \<Rightarrow> (st2, err 500 ''Internal server error'')
           | Some started \<Rightarrow>
               let st3 = st2\<lparr>chunks := rows,
                             stats_table := update_stats_row file_id received_count Float
                                              (ms_errors ms) (stats_table st2)\<rparr>;
                   total = int (m_total_chunks manifest);
                   st4 = emit ''chunk''
                           [(''file_id'', JStr file_id), (''chunk_id'', JInt chunk_id),
                            (''received'', JInt received_count), (''total'', JInt total),
                            (''filename'', JStr (m_filename manifest)),
                            (''chunk_size'', JInt (int (length data))),
                            (''speed'', JFloat)] st3;
                   st5 = (if received_count = total
                          then emit ''transfer_complete''
                                 [(''file_id'', JStr file_id),
                                  (''filename'', JStr (m_filename manifest))] st4
                          else st4)
               in if total = 0 then (st5, err 500 ''Internal server error'')
                  else (st5, Json 200
                          [(''status'', JStr ''ok''), (''received'', JInt received_count),
                           (''total'', JInt total), (''speed'', JFloat),
                           (''progress'', JFloat)]))"

text \<open>
  Lines 122 to 178: the checksum comparison, the manifest and chunk-row lookups and the
  duplicate answer. The lookup of the chunk row binds \<^verbatim>\<open>chunk_id\<close>: outside the 64-bit range
  it raises \<^verbatim>\<open>OverflowError\<close>, which the handler's \<^verbatim>\<open>except Exception\<close> answers with 500.
\<close>

definition ingest ::
  "(bytes \<Rightarrow> string) \<Rightarrow> clock \<Rightarrow> string \<Rightarrow> int \<Rightarrow> string \<Rightarrow> bytes \<Rightarrow> coordinator
     \<Rightarrow> coordinator \<times> response" where
  "ingest H clk file_id chunk_id checksum data st =
     (let calculated_checksum = H data in
      if calculated_checksum \<noteq> checksum
      then
        let old = stats_of (transfer_stats st) file_id;
            st1 = st\<lparr>transfer_stats :=
                       (transfer_stats st)(file_id \<mapsto> old\<lparr>ms_errors := ms_errors old + 1\<rparr>)\<rparr>;
            st2 = emit ''error''
                    [(''file_id'', JStr file_id), (''chunk_id'', JInt chunk_id),
                     (''message'', JStr (''Checksum mismatch for chunk '' @ str_int chunk_id))] st1
        in (st2, Json 400 [(''error'', JStr ''Checksum verification failed''),
                           (''expected'', JStr checksum),
                           (''received'', JStr calculated_checksum)])
      else
        (case manifests st file_id of
           None \<Rightarrow> (st, err 404 ''Unknown file_id'')
         | Some manifest \<Rightarrow>
             if m_status manifest \<noteq> ''active''
             then (st, err 409 (''Transfer not active (status: '' @ m_status manifest @ '')''))
             else if \<not> sqlite_int chunk_id
             then (st, err 500 ''Internal server error'')
             else
               (case lookup_chunk (chunks st) file_id chunk_id of
                  None \<Rightarrow> (st, err 400 ''Invalid chunk_id for this file'')
                | Some chunk_status \<Rightarrow>
                    if c_received chunk_status = 1
                    then (st, Json 200
                            [(''status'', JStr ''ok''),
                             (''received'', JInt (count_received (chunks st) file_id)),
                             (''total'', JInt (int (m_total_chunks manifest))),
                             (''duplicate'', JBool True)])
                    else store_chunk clk file_id chunk_id data manifest st)))"

text \<open>The view itself: lines 95 to 120 validate the form, then the chunk is ingested.\<close>

definition upload_chunk ::
  "(bytes \<Rightarrow> string) \<Rightarrow> clock \<Rightarrow> chunk_form \<Rightarrow> coordinator \<Rightarrow> coordinator \<times> response" where
  "upload_chunk H clk form st =
     (case f_file_id form of
        None \<Rightarrow> (st, err 400 ''Missing required field: file_id'')
      | Some file_id \<Rightarrow>
     (case f_chunk_id form of
        None \<Rightarrow> (st, err 400 ''Missing required field: chunk_id'')
      | Some chunk_id_text \<Rightarrow>
     (case f_checksum form of
        None \<Rightarrow> (st, err 400 ''Missing required field: checksum'')
      | Some checksum \<Rightarrow>
     (case py_int chunk_id_text of
        None \<Rightarrow> (st, err 400 ''Invalid chunk_id format'')
      | Some chunk_id \<Rightarrow>
     (case f_chunk form of
        None \<Rightarrow> (st, err 400 ''No chunk file provided'')
      | Some (part_name, data) \<Rightarrow>
          if part_name = [] then (st, err 400 ''Empty chunk file'')
          else if length data = 0 then (st, err 400 ''Empty chunk data'')
          else ingest H clk file_id chunk_id checksum data st)))))"

subsection \<open>\<^verbatim>\<open>GET /upload/missing/<file_id>\<close>\<close>

text \<open>
  \<^verbatim>\<open>SELECT chunk_id FROM chunks WHERE file_id=? AND received=0\<close>, the rows in the order the
  table holds them; the view neither sorts them nor looks at the manifests.
\<close>

definition missing_ids :: "string \<Rightarrow> coordinator \<Rightarrow> int list" where
  "missing_ids file_id st =
     map c_chunk_id (filter (\<lambda>r. c_file_id r = file_id \<and> c_received r = 0) (chunks st))"

definition missing :: "string \<Rightarrow> coordinator \<Rightarrow> response" where
  "missing file_id st = Json 200 [(''missing'', JList (map JInt (missing_ids file_id st)))]"

subsection \<open>\<^verbatim>\<open>POST /assemble/<file_id>\<close>\<close>

text \<open>
  The loop of \<^verbatim>\<open>assemble\<close> over \<^verbatim>\<open>range(total)\<close>, run on the file store after the output file
  has been opened with mode \<^verbatim>\<open>'wb'\<close>: each chunk file that exists is appended to the output;
  the first one that does not exist ends the loop with its index.
\<close>

fun copy_chunks ::
  "string \<Rightarrow> string \<Rightarrow> nat list \<Rightarrow> (string \<rightharpoonup> bytes) \<Rightarrow> (string \<rightharpoonup> bytes) \<times> nat option" where
  "copy_chunks file_id out [] fs = (fs, None)"
| "copy_chunks file_id out (i # rest) fs =
     (case fs (chunk_path file_id (int i)) of
        None \<Rightarrow> (fs, Some i)
      | Some data \<Rightarrow>
          copy_chunks file_id out rest
            (fs(out \<mapsto> (case fs out of None \<Rightarrow> [] | Some written \<Rightarrow> written) @ data)))"

definition assemble :: "string \<Rightarrow> coordinator \<Rightarrow> coordinator \<times> response" where
  "assemble file_id st =
     (case manifests st file_id of
        None \<Rightarrow> (st, err 404 ''unknown file id'')
      | Some row \<Rightarrow>
          let filename = m_filename row;
              total = m_total_chunks row;
              out = out_path filename
          in if out \<in> unwritable st then (st, Unhandled)
             else
               (case copy_chunks file_id out [0..<total] ((files st)(out \<mapsto> [])) of
                  (fs, Some i) \<Rightarrow>
                    (st\<lparr>files := fs\<rparr>, err 400 (''missing chunk '' @ str_int (int i)))
                | (fs, None) \<Rightarrow>
                    (emit ''assembled''
                       [(''file_id'', JStr file_id), (''filename'', JStr filename)]
                       (st\<lparr>files := fs\<rparr>),
                     Json 200 [(''status'', JStr ''ok''), (''path'', JStr out)])))"

subsection \<open>\<^verbatim>\<open>GET /download/<file_id>\<close>\<close>

definition download_file :: "string \<Rightarrow> coordinator \<Rightarrow> response" where
  "download_file file_id st =
     (case manifests st file_id of
        None \<Rightarrow> err 404 ''File not found''
      | Some row \<Rightarrow>
          if m_status row \<noteq> ''completed''
          then Json 409 [(''error'', JStr ''File not ready for download''),
                         (''status'', JStr (m_status row))]
          else
            (case files st (out_path (m_filename row)) of
               None \<Rightarrow> err 404 ''Assembled file not found''
             | Some content \<Rightarrow> Attachment (m_filename row) content))"


subsection \<open>The hourly sweep and the states the coordinator can be in\<close>

text \<open>
  \<^verbatim>\<open>UPDATE manifests SET status='stale' WHERE status='active' AND created_at < ?\<close>, bound to
  \<^verbatim>\<open>datetime.now() - timedelta(hours=1)\<close>. SQLite compares two texts here: the column holds
  what \<^verbatim>\<open>CURRENT_TIMESTAMP\<close> wrote (UTC, to the second), the bound is what the \<^verbatim>\<open>sqlite3\<close>
  adapter writes for a \<^verbatim>\<open>datetime\<close> (local time, with microseconds). Which creation instants
  compare below the bound depends on the time zone of the host, so the outcome of the
  comparison is the parameter \<open>older\<close>.
\<close>

definition cleanup_stale_transfers :: "(rat \<Rightarrow> bool) \<Rightarrow> coordinator \<Rightarrow> coordinator" where
  "cleanup_stale_transfers older st =
     st\<lparr>manifests := (\<lambda>k. map_option
            (\<lambda>m. if m_status m = ''active'' \<and> older (m_created_at m)
                  then m\<lparr>m_status := ''stale''\<rparr> else m)
            (manifests st k))\<rparr>"

text \<open>
  The states of a coordinator that starts on an empty database: every state-changing
  operation of the module is a step, and so is a restart of the process, which keeps the
  database and the files and empties the in-memory dictionary.
\<close>

inductive reachable :: "(bytes \<Rightarrow> string) \<Rightarrow> coordinator \<Rightarrow> bool" for H :: "bytes \<Rightarrow> string" where
  fresh: "manifests st = Map.empty \<Longrightarrow> chunks st = [] \<Longrightarrow> stats_table st = Map.empty \<Longrightarrow>
          transfer_stats st = Map.empty \<Longrightarrow> reachable H st"
| init: "reachable H st \<Longrightarrow> reachable H (fst (upload_init now data st))"
| chunk: "reachable H st \<Longrightarrow> reachable H (fst (upload_chunk H clk form st))"
| assembled: "reachable H st \<Longrightarrow> reachable H (fst (assemble file_id st))"
| swept: "reachable H st \<Longrightarrow> reachable H (cleanup_stale_transfers older st)"
| restarted: "reachable H st \<Longrightarrow> reachable H (st\<lparr>transfer_stats := Map.empty\<rparr>)"

section \<open>The sender (\<^verbatim>\<open>sender/send_file.py\<close>)\<close>




section \<open>Concrete inputs\<close>

text \<open>
  A registered transfer \<^verbatim>\<open>f\<close> of the file \<^verbatim>\<open>a.bin\<close>, with the chunk rows, the in-memory start
  time and the staged files given; the manifest of \<^verbatim>\<open>f\<close> as a client posts it; an upload of
  the one-byte chunk 0; and the clock readings of a request.
\<close>

definition demo_manifest :: "nat \<Rightarrow> manifest_row" where
  "demo_manifest n =
     \<lparr>m_filename = ''a.bin'', m_size = 2, m_chunk_size = 1, m_total_chunks = n, m_merkle = [],
      m_priority = ''normal'', m_status = ''active'', m_created_at = 0, m_completed_at = None\<rparr>"

definition demo_row :: "int \<Rightarrow> string \<Rightarrow> int \<Rightarrow> chunk_row" where
  "demo_row chunk_id declared flag =
     \<lparr>c_file_id = ''f'', c_chunk_id = chunk_id, c_checksum = declared, c_received = flag,
      c_received_at = None, c_retry_count = 0\<rparr>"

definition demo_state :: "nat \<Rightarrow> chunk_row list \<Rightarrow> rat option \<Rightarrow> (string \<rightharpoonup> bytes) \<Rightarrow> coordinator" where
  "demo_state n rows started staged =
     \<lparr>manifests = [''f'' \<mapsto> demo_manifest n], chunks = rows, stats_table = Map.empty,
      transfer_stats = [''f'' \<mapsto> default_stats\<lparr>ms_start_time := started\<rparr>], files = staged,
      unwritable = {}, emitted = []\<rparr>"

definition demo_meta :: "int \<Rightarrow> string \<Rightarrow> chunk_meta" where
  "demo_meta chunk_id declared = \<lparr>cm_chunk_id = chunk_id, cm_size = 1, cm_checksum = declared\<rparr>"

definition demo_body :: "chunk_meta list \<Rightarrow> init_body" where
  "demo_body metas =
     \<lparr>ib_file_id = ''f'', ib_filename = ''a.bin'', ib_size = 2, ib_chunk_size = 1,
      ib_chunks = metas, ib_priority = None\<rparr>"

definition demo_form :: "string \<Rightarrow> chunk_form" where
  "demo_form given =
     \<lparr>f_file_id = Some ''f'', f_chunk_id = Some ''0'', f_checksum = Some given,
      f_chunk = Some (''chunk'', [7])\<rparr>"

definition demo_clock :: clock where
  "demo_clock = \<lparr>t_mark = 11, t_activity = 12\<rparr>"

text \<open>
  SHA-256 itself is not modelled. Where a closed example needs a digest function, this
  stand-in is used; the handlers use a digest only through equality of its results.
\<close>

definition demo_digest :: "bytes \<Rightarrow> string" where
  "demo_digest data = map (\<lambda>b. char_of (unat b)) data"

text \<open>
  The same state with other checksums in the chunk rows: the row of chunk \<open>c\<close> of file \<open>f\<close>
  declares \<open>g f c\<close>.
\<close>

definition redeclare :: "(string \<Rightarrow> int \<Rightarrow> string) \<Rightarrow> coordinator \<Rightarrow> coordinator" where
  "redeclare g st =
     st\<lparr>chunks := map (\<lambda>r. r\<lparr>c_checksum := g (c_file_id r) (c_chunk_id r)\<rparr>) (chunks st)\<rparr>"

text \<open>
  The coordinator after the manifest of \<^verbatim>\<open>f\<close> with the one chunk 0 and the given declared
  checksum has been posted to an empty coordinator.
\<close>

definition registered :: "string \<Rightarrow> coordinator" where
  "registered declared = fst (upload_init 0 (demo_body [demo_meta 0 declared]) empty_coordinator)"


section \<open>Properties of the coordinator\<close>

subsection \<open>Evaluation on the concrete inputs\<close>

lemma py_int_zero: "py_int ''0'' = Some 0"
  by (simp add: py_int_def read_digits_def strip_def is_space_def is_digit_def)

lemma chunk_path_f0: "chunk_path ''f'' 0 = ''uploads/f/chunk_000000.bin''"
  by code_simp

lemma chunk_path_f1: "chunk_path ''f'' 1 = ''uploads/f/chunk_000001.bin''"
  by code_simp

lemma storable_demo:
  "storable (demo_body metas) = list_all (\<lambda>ch. sqlite_int (cm_chunk_id ch)) metas"
  by (simp add: storable_def demo_body_def sqlite_int_def)

lemma sqlite_int_small [simp]: "sqlite_int 0" "sqlite_int 1"
  by (simp_all add: sqlite_int_def)

subsection \<open>What an event leaves alone\<close>

lemma files_emit [simp]: "files (emit name payload st) = files st"
  by (simp add: emit_def)

lemma chunks_emit [simp]: "chunks (emit name payload st) = chunks st"
  by (simp add: emit_def)

lemma manifests_emit [simp]: "manifests (emit name payload st) = manifests st"
  by (simp add: emit_def)

lemma stats_table_emit [simp]: "stats_table (emit name payload st) = stats_table st"
  by (simp add: emit_def)

lemma transfer_stats_emit [simp]: "transfer_stats (emit name payload st) = transfer_stats st"
  by (simp add: emit_def)

subsection \<open>The copying loop of \<^verbatim>\<open>assemble\<close>\<close>

lemma copy_chunks_dom:
  "out \<in> dom fs \<Longrightarrow> dom (fst (copy_chunks file_id out js fs)) = dom fs"
  by (induction js arbitrary: fs) (auto split: option.splits)

lemma copy_chunks_stop:
  "out \<in> dom fs \<Longrightarrow>
   snd (copy_chunks file_id out js fs) = find (\<lambda>j. fs (chunk_path file_id (int j)) = None) js"
proof (induction js arbitrary: fs)
  case Nil
  then show ?case by simp
next
  case (Cons j js)
  show ?case
  proof (cases "fs (chunk_path file_id (int j))")
    case None
    then show ?thesis by simp
  next
    case (Some data)
    let ?fs = "fs(out \<mapsto> (case fs out of None \<Rightarrow> [] | Some written \<Rightarrow> written) @ data)"
    have "out \<in> dom ?fs" by simp
    then have "snd (copy_chunks file_id out js ?fs) =
               find (\<lambda>j. ?fs (chunk_path file_id (int j)) = None) js"
      by (rule Cons.IH)
    moreover have "\<And>p. (?fs p = None) = (fs p = None)"
      using Cons.prems by auto
    ultimately show ?thesis using Some by simp
  qed
qed

lemma copy_chunks_output:
  "fs out = Some written \<Longrightarrow> \<forall>j \<in> set js. chunk_path file_id (int j) \<noteq> out \<Longrightarrow>
   fst (copy_chunks file_id out js fs) out =
     Some (written @ concat (map (\<lambda>j. the (fs (chunk_path file_id (int j))))
                              (takeWhile (\<lambda>j. fs (chunk_path file_id (int j)) \<noteq> None) js)))"
proof (induction js arbitrary: fs written)
  case Nil
  then show ?case by simp
next
  case (Cons j js)
  show ?case
  proof (cases "fs (chunk_path file_id (int j))")
    case None
    then show ?thesis using Cons.prems by simp
  next
    case (Some data)
    let ?fs = "fs(out \<mapsto> written @ data)"
    have 1: "?fs out = Some (written @ data)" by simp
    have 2: "\<forall>j \<in> set js. chunk_path file_id (int j) \<noteq> out" using Cons.prems by simp
    have 3: "\<And>k. k \<in> set js \<Longrightarrow> ?fs (chunk_path file_id (int k)) = fs (chunk_path file_id (int k))"
      using 2 by auto
    have e1: "takeWhile (\<lambda>j. ?fs (chunk_path file_id (int j)) \<noteq> None) js =
              takeWhile (\<lambda>j. fs (chunk_path file_id (int j)) \<noteq> None) js"
      using 3 by (intro takeWhile_cong) auto
    have e2: "map (\<lambda>j. the (?fs (chunk_path file_id (int j))))
                (takeWhile (\<lambda>j. fs (chunk_path file_id (int j)) \<noteq> None) js) =
              map (\<lambda>j. the (fs (chunk_path file_id (int j))))
                (takeWhile (\<lambda>j. fs (chunk_path file_id (int j)) \<noteq> None) js)"
    proof (rule map_cong [OF refl])
      fix k
      assume "k \<in> set (takeWhile (\<lambda>j. fs (chunk_path file_id (int j)) \<noteq> None) js)"
      then have "k \<in> set js" by (auto dest: set_takeWhileD)
      then have "?fs (chunk_path file_id (int k)) = fs (chunk_path file_id (int k))" by (rule 3)
      then show "the (?fs (chunk_path file_id (int k))) = the (fs (chunk_path file_id (int k)))"
        by (rule arg_cong)
    qed
    have "fst (copy_chunks file_id out js ?fs) out =
            Some ((written @ data) @ concat (map (\<lambda>j. the (?fs (chunk_path file_id (int j))))
                              (takeWhile (\<lambda>j. ?fs (chunk_path file_id (int j)) \<noteq> None) js)))"
      using 1 2 by (rule Cons.IH)
    then have "fst (copy_chunks file_id out js ?fs) out =
            Some ((written @ data) @ concat (map (\<lambda>j. the (fs (chunk_path file_id (int j))))
                              (takeWhile (\<lambda>j. fs (chunk_path file_id (int j)) \<noteq> None) js)))"
      by (simp only: e1 e2)
    then show ?thesis using Some Cons.prems(1) by simp
  qed
qed

lemma find_append_first:
  "find P (xs @ ys) = (case find P xs of None \<Rightarrow> find P ys | Some x \<Rightarrow> Some x)"
  by (induction xs) auto

lemma find_upt_first:
  assumes "i < n" "P i" "\<forall>j<i. \<not> P j"
  shows "find P [0..<n] = Some i \<and> takeWhile (\<lambda>j. \<not> P j) [0..<n] = [0..<i]"
proof -
  have "[0..<n] = [0..<i] @ [i..<n]"
    using assms(1) by (metis le_add_diff_inverse less_imp_le_nat upt_add_eq_append zero_le)
  then have split: "[0..<n] = [0..<i] @ i # [Suc i..<n]"
    using assms(1) by (simp add: upt_conv_Cons)
  have none: "find P [0..<i] = None"
    using assms(3) by (simp add: find_None_iff)
  have "takeWhile (\<lambda>j. \<not> P j) ([0..<i] @ i # [Suc i..<n]) =
          [0..<i] @ takeWhile (\<lambda>j. \<not> P j) (i # [Suc i..<n])"
    using assms(3) by (intro takeWhile_append2) auto
  then have "takeWhile (\<lambda>j. \<not> P j) ([0..<i] @ i # [Suc i..<n]) = [0..<i]"
    using assms(2) by simp
  moreover have "find P ([0..<i] @ i # [Suc i..<n]) = Some i"
    using assms(2) none by (simp add: find_append_first)
  ultimately show ?thesis
    unfolding split by simp
qed


lemma upt_two: "[0..<2] = [0, 1]"
  by (simp add: numeral_2_eq_2)

lemma str_int_one: "str_int 1 = ''1''"
  by code_simp

lemma copy_chunks_others:
  "p \<noteq> out \<Longrightarrow> fst (copy_chunks file_id out js fs) p = fs p"
  by (induction js arbitrary: fs) (auto split: option.splits)

lemma copy_chunks_first_missing:
  assumes "fs out = Some []"
    and "\<forall>j<n. chunk_path file_id (int j) \<noteq> out"
    and "i < n"
    and "fs (chunk_path file_id (int i)) = None"
    and "\<forall>j<i. fs (chunk_path file_id (int j)) \<noteq> None"
  shows "copy_chunks file_id out [0..<n] fs =
           (fs(out \<mapsto> concat (map (\<lambda>j. the (fs (chunk_path file_id (int j)))) [0..<i])), Some i)"
proof -
  let ?P = "\<lambda>j. fs (chunk_path file_id (int j)) = None"
  have first: "find ?P [0..<n] = Some i \<and> takeWhile (\<lambda>j. \<not> ?P j) [0..<n] = [0..<i]"
    using assms(3-5) by (intro find_upt_first) auto
  have "out \<in> dom fs" using assms(1) by auto
  then have stop: "snd (copy_chunks file_id out [0..<n] fs) = Some i"
    using first by (simp add: copy_chunks_stop)
  have "fst (copy_chunks file_id out [0..<n] fs) out =
          Some ([] @ concat (map (\<lambda>j. the (fs (chunk_path file_id (int j))))
                              (takeWhile (\<lambda>j. fs (chunk_path file_id (int j)) \<noteq> None) [0..<n])))"
    using assms(1,2) by (intro copy_chunks_output) auto
  then have at_out: "fst (copy_chunks file_id out [0..<n] fs) out =
          Some (concat (map (\<lambda>j. the (fs (chunk_path file_id (int j)))) [0..<i]))"
    using first by simp
  have "fst (copy_chunks file_id out [0..<n] fs) =
          fs(out \<mapsto> concat (map (\<lambda>j. the (fs (chunk_path file_id (int j)))) [0..<i]))"
  proof
    fix p
    show "fst (copy_chunks file_id out [0..<n] fs) p =
          (fs(out \<mapsto> concat (map (\<lambda>j. the (fs (chunk_path file_id (int j)))) [0..<i]))) p"
      using at_out by (cases "p = out") (simp_all add: copy_chunks_others)
  qed
  with stop show ?thesis
    by (metis prod.collapse)
qed

lemma upt_one: "[0..<1] = [0]"
  by simp

text \<open>
  Claim C7, as amended. When chunk \<open>i\<close> is the first staged chunk file that is missing,
  \<^verbatim>\<open>assemble\<close> answers 400 with \<^verbatim>\<open>missing chunk i\<close> and changes nothing in the database (the
  manifest keeps its status) and emits nothing, but the output file stays on disk: it was
  opened for writing before the first check, and it holds the chunks before \<open>i\<close>. The
  statement is for an output path that is writable and is not itself one of the chunk paths.
\<close>

theorem assemble_missing_chunk_leaves_partial_output:
  assumes "manifests st file_id = Some row"
    and "out_path (m_filename row) \<notin> unwritable st"
    and "\<forall>j < m_total_chunks row. chunk_path file_id (int j) \<noteq> out_path (m_filename row)"
    and "i < m_total_chunks row"
    and "files st (chunk_path file_id (int i)) = None"
    and "\<forall>j<i. files st (chunk_path file_id (int j)) \<noteq> None"
  shows "assemble file_id st =
           (st\<lparr>files := (files st)(out_path (m_filename row) \<mapsto>
                    concat (map (\<lambda>j. the (files st (chunk_path file_id (int j)))) [0..<i]))\<rparr>,
            Json 400 [(''error'', JStr (''missing chunk '' @ str_int (int i)))])"
proof -
  let ?out = "out_path (m_filename row)"
  let ?fs = "(files st)(?out \<mapsto> [])"
  have same: "\<And>j. j < m_total_chunks row \<Longrightarrow>
                ?fs (chunk_path file_id (int j)) = files st (chunk_path file_id (int j))"
    using assms(3) by simp
  have c: "copy_chunks file_id ?out [0..<m_total_chunks row] ?fs =
          (?fs(?out \<mapsto> concat (map (\<lambda>j. the (?fs (chunk_path file_id (int j)))) [0..<i])), Some i)"
  proof (rule copy_chunks_first_missing)
    show "?fs ?out = Some []" by simp
    show "\<forall>j<m_total_chunks row. chunk_path file_id (int j) \<noteq> ?out" by (rule assms(3))
    show "i < m_total_chunks row" by (rule assms(4))
    show "?fs (chunk_path file_id (int i)) = None" using same assms(4,5) by simp
    show "\<forall>j<i. ?fs (chunk_path file_id (int j)) \<noteq> None" using same assms(4,6) by simp
  qed
  have m: "map (\<lambda>j. the (?fs (chunk_path file_id (int j)))) [0..<i] =
           map (\<lambda>j. the (files st (chunk_path file_id (int j)))) [0..<i]"
  proof (rule map_cong [OF refl])
    fix j
    assume "j \<in> set [0..<i]"
    then have "j < m_total_chunks row" using assms(4) by simp
    then have "?fs (chunk_path file_id (int j)) = files st (chunk_path file_id (int j))"
      by (rule same)
    then show "the (?fs (chunk_path file_id (int j))) = the (files st (chunk_path file_id (int j)))"
      by (rule arg_cong)
  qed
  have u: "\<And>x. ?fs(?out \<mapsto> x) = (files st)(?out \<mapsto> x)"
    by simp
  have "copy_chunks file_id ?out [0..<m_total_chunks row] ?fs =
          ((files st)(?out \<mapsto> concat (map (\<lambda>j. the (files st (chunk_path file_id (int j)))) [0..<i])),
           Some i)"
    using c unfolding m u .
  then show ?thesis
    using assms(1,2) by (simp add: assemble_def Let_def err_def)
qed

theorem assemble_missing_chunk_leaves_partial_output_witness:
  "assemble ''f'' (demo_state 2 [demo_row 0 ''x'' 1, demo_row 1 ''y'' 0] None
                     [''uploads/f/chunk_000000.bin'' \<mapsto> [7]]) =
     ((demo_state 2 [demo_row 0 ''x'' 1, demo_row 1 ''y'' 0] None
         [''uploads/f/chunk_000000.bin'' \<mapsto> [7]])
        \<lparr>files := [''uploads/f/chunk_000000.bin'' \<mapsto> [7], ''uploads/assembled_a.bin'' \<mapsto> [7]]\<rparr>,
      Json 400 [(''error'', JStr ''missing chunk 1'')])"
proof -
  let ?st = "demo_state 2 [demo_row 0 ''x'' 1, demo_row 1 ''y'' 0] None
               [''uploads/f/chunk_000000.bin'' \<mapsto> [7]]"
  have 1: "manifests ?st ''f'' = Some (demo_manifest 2)"
    by (simp add: demo_state_def)
  have 2: "out_path (m_filename (demo_manifest 2)) \<notin> unwritable ?st"
    by (simp add: demo_state_def)
  have 3: "\<forall>j < m_total_chunks (demo_manifest 2).
             chunk_path ''f'' (int j) \<noteq> out_path (m_filename (demo_manifest 2))"
    by (simp add: chunk_path_def out_path_def demo_manifest_def)
  have 4: "1 < m_total_chunks (demo_manifest 2)"
    by (simp add: demo_manifest_def)
  have 5: "files ?st (chunk_path ''f'' (int 1)) = None"
    by (simp add: demo_state_def chunk_path_f1)
  have 6: "\<forall>j<1. files ?st (chunk_path ''f'' (int j)) \<noteq> None"
    by (simp add: demo_state_def chunk_path_f0)
  from assemble_missing_chunk_leaves_partial_output [OF 1 2 3 4 5 6] show ?thesis
    by (simp add: demo_state_def demo_manifest_def out_path_def chunk_path_f0 str_int_one)
qed

text \<open>
  Against C7 as stated: chunk 0 is staged, chunk 1 is not. Before the call there is no
  output file; after the failed call there is one, holding chunk 0.
\<close>

theorem assemble_leaves_partial_output:
  "(let st = demo_state 2 [demo_row 0 ''x'' 1, demo_row 1 ''y'' 0] None
               [''uploads/f/chunk_000000.bin'' \<mapsto> [7]]
    in files st ''uploads/assembled_a.bin'' = None \<and>
       snd (assemble ''f'' st) = Json 400 [(''error'', JStr ''missing chunk 1'')] \<and>
       files (fst (assemble ''f'' st)) ''uploads/assembled_a.bin'' = Some [7])"
  by (simp add: Let_def assemble_def demo_state_def demo_manifest_def out_path_def chunk_path_f0
      chunk_path_f1 err_def upt_two str_int_one)

text \<open>
  Claim C1, evaluated on the code. \<^verbatim>\<open>assemble\<close> never writes the table of manifests, so a
  transfer whose status is not \<^verbatim>\<open>completed\<close> before the call does not have it after the call,
  whatever the call answers, and \<^verbatim>\<open>/download\<close> then answers 409. The instance below is a
  successful assembly: the answer is 200 with the output path, the event \<^verbatim>\<open>assembled\<close> is
  emitted, the status is still \<^verbatim>\<open>active\<close>, and the download is refused.
\<close>

theorem assemble_never_completes:
  assumes "manifests st file_id = Some row"
    and "m_status row \<noteq> ''completed''"
  shows "manifests (fst (assemble file_id st)) = manifests st \<and>
         download_file file_id (fst (assemble file_id st)) =
           Json 409 [(''error'', JStr ''File not ready for download''),
                     (''status'', JStr (m_status row))]"
proof -
  have "manifests (fst (assemble file_id st)) = manifests st"
    by (simp add: assemble_def Let_def emit_def split: option.splits prod.splits)
  then show ?thesis
    using assms by (simp add: download_file_def)
qed

theorem assemble_never_completes_witness:
  "(let st = demo_state 1 [demo_row 0 ''x'' 1] None [''uploads/f/chunk_000000.bin'' \<mapsto> [7]]
    in assemble ''f'' st =
         (st\<lparr>files := [''uploads/f/chunk_000000.bin'' \<mapsto> [7],
                        ''uploads/assembled_a.bin'' \<mapsto> [7]],
             emitted := [(''assembled'', [(''file_id'', JStr ''f''), (''filename'', JStr ''a.bin'')])]\<rparr>,
          Json 200 [(''status'', JStr ''ok''), (''path'', JStr ''uploads/assembled_a.bin'')]) \<and>
       manifests (fst (assemble ''f'' st)) ''f'' = Some (demo_manifest 1) \<and>
       m_status (demo_manifest 1) = ''active'' \<and>
       download_file ''f'' (fst (assemble ''f'' st)) =
         Json 409 [(''error'', JStr ''File not ready for download''),
                   (''status'', JStr ''active'')])"
proof -
  let ?st = "demo_state 1 [demo_row 0 ''x'' 1] None [''uploads/f/chunk_000000.bin'' \<mapsto> [7]]"
  have 1: "manifests ?st ''f'' = Some (demo_manifest 1)"
    by (simp add: demo_state_def)
  have 2: "m_status (demo_manifest 1) \<noteq> ''completed''"
    by (simp add: demo_manifest_def)
  have 3: "assemble ''f'' ?st =
         (?st\<lparr>files := [''uploads/f/chunk_000000.bin'' \<mapsto> [7],
                        ''uploads/assembled_a.bin'' \<mapsto> [7]],
             emitted := [(''assembled'', [(''file_id'', JStr ''f''), (''filename'', JStr ''a.bin'')])]\<rparr>,
          Json 200 [(''status'', JStr ''ok''), (''path'', JStr ''uploads/assembled_a.bin'')])"
    by (simp add: assemble_def demo_state_def demo_manifest_def out_path_def chunk_path_f0
        emit_def Let_def)
  from assemble_never_completes [OF 1 2] 1 3 show ?thesis
    by (simp add: Let_def demo_manifest_def)
qed
subsection \<open>The chunk rows after a registration\<close>

lemma lookup_insert:
  "lookup_chunk (insert_or_replace_chunk file_id rows ch) f c =
     (if f = file_id \<and> c = cm_chunk_id ch then Some (new_row file_id ch)
      else lookup_chunk rows f c)"
  unfolding lookup_chunk_def insert_or_replace_chunk_def
  by (induction rows) (auto simp: new_row_def)

lemma lookup_registered:
  "lookup_chunk (foldl (insert_or_replace_chunk file_id) rows chs) f c =
     (if f = file_id \<and> c \<in> cm_chunk_id ` set chs
      then Some (new_row file_id (last (filter (\<lambda>ch. cm_chunk_id ch = c) chs)))
      else lookup_chunk rows f c)"
proof (induction chs rule: rev_induct)
  case Nil
  then show ?case by simp
next
  case (snoc ch chs)
  then show ?case
    by (auto simp: lookup_insert)
qed

lemma upload_init_unstorable:
  "\<not> storable data \<Longrightarrow> upload_init now data st = (st, Unhandled)"
  by (simp add: upload_init_def Let_def)

lemma upload_init_answer:
  "storable data \<Longrightarrow> snd (upload_init now data st) = Json 200 [(''status'', JStr ''ok'')]"
  by (simp add: upload_init_def Let_def)

lemma upload_init_chunks:
  "storable data \<Longrightarrow>
   chunks (fst (upload_init now data st)) =
     foldl (insert_or_replace_chunk (ib_file_id data)) (chunks st) (ib_chunks data)"
  by (simp add: upload_init_def Let_def emit_def)

lemma upload_init_manifest_rows:
  "storable data \<Longrightarrow>
   manifests (fst (upload_init now data st)) =
     (manifests st)(ib_file_id data \<mapsto>
        \<lparr>m_filename = ib_filename data, m_size = ib_size data,
         m_chunk_size = ib_chunk_size data, m_total_chunks = length (ib_chunks data),
         m_merkle = [],
         m_priority = (case ib_priority data of None \<Rightarrow> ''normal'' | Some p \<Rightarrow> p),
         m_status = ''active'', m_created_at = now, m_completed_at = None\<rparr>)"
  by (simp add: upload_init_def Let_def emit_def)

lemma demo_registration_rows:
  assumes "list_all (\<lambda>ch. sqlite_int (cm_chunk_id ch)) metas"
  shows "chunks (fst (upload_init now (demo_body metas) st)) =
           foldl (insert_or_replace_chunk ''f'') (chunks st) metas"
proof -
  have "storable (demo_body metas)"
    using assms by (simp add: storable_demo)
  then have "chunks (fst (upload_init now (demo_body metas) st)) =
               foldl (insert_or_replace_chunk (ib_file_id (demo_body metas))) (chunks st)
                 (ib_chunks (demo_body metas))"
    by (rule upload_init_chunks)
  then show ?thesis
    by (simp add: demo_body_def)
qed

lemma registered_rows: "chunks (registered declared) = [demo_row 0 declared 0]"
  by (simp add: registered_def demo_registration_rows demo_meta_def empty_coordinator_def
      insert_or_replace_chunk_def new_row_def demo_row_def)

lemma rows_of_registered:
  assumes "\<forall>r \<in> set rows. c_file_id r \<noteq> file_id"
    and "distinct (map cm_chunk_id chs)"
  shows "filter (\<lambda>r. c_file_id r = file_id) (foldl (insert_or_replace_chunk file_id) rows chs) =
           map (new_row file_id) chs"
  using assms(2)
proof (induction chs rule: rev_induct)
  case Nil
  then show ?case using assms(1) by (simp add: filter_empty_conv)
next
  case (snoc ch chs)
  define before where "before = foldl (insert_or_replace_chunk file_id) rows chs"
  have IH: "filter (\<lambda>r. c_file_id r = file_id) before = map (new_row file_id) chs"
    using snoc by (simp add: before_def)
  have fresh: "\<forall>x \<in> set chs. cm_chunk_id x \<noteq> cm_chunk_id ch"
    using snoc.prems by (force simp: image_iff)
  have "filter (\<lambda>r. c_file_id r = file_id) (insert_or_replace_chunk file_id before ch) =
        filter (\<lambda>r. \<not> (c_file_id r = file_id \<and> c_chunk_id r = cm_chunk_id ch))
          (filter (\<lambda>r. c_file_id r = file_id) before) @ [new_row file_id ch]"
    by (simp add: insert_or_replace_chunk_def new_row_def conj_commute)
  also have "\<dots> = filter (\<lambda>r. \<not> (c_file_id r = file_id \<and> c_chunk_id r = cm_chunk_id ch))
                     (map (new_row file_id) chs) @ [new_row file_id ch]"
    by (simp only: IH)
  also have "\<dots> = map (new_row file_id) chs @ [new_row file_id ch]"
    using fresh by (simp add: filter_id_conv new_row_def)
  finally have "filter (\<lambda>r. c_file_id r = file_id) (insert_or_replace_chunk file_id before ch) =
                map (new_row file_id) (chs @ [ch])"
    by simp
  moreover have "foldl (insert_or_replace_chunk file_id) rows (chs @ [ch]) =
                 insert_or_replace_chunk file_id before ch"
    by (simp add: before_def)
  ultimately show ?case
    by (simp only:)
qed

lemma missing_ids_split:
  "missing_ids file_id st =
     map c_chunk_id (filter (\<lambda>r. c_received r = 0)
                       (filter (\<lambda>r. c_file_id r = file_id) (chunks st)))"
  by (simp add: missing_ids_def conj_commute)

lemma missing_after_registration:
  assumes "\<forall>r \<in> set (chunks st). c_file_id r \<noteq> ib_file_id data"
    and "distinct (map cm_chunk_id (ib_chunks data))"
    and "storable data"
  shows "map c_chunk_id (filter (\<lambda>r. c_file_id r = ib_file_id data)
                           (chunks (fst (upload_init now data st)))) =
           map cm_chunk_id (ib_chunks data)"
    and "missing_ids (ib_file_id data) (fst (upload_init now data st)) =
           map cm_chunk_id (ib_chunks data)"
  using rows_of_registered [OF assms(1,2)] assms(3)
  by (simp_all add: missing_ids_split upload_init_chunks new_row_def comp_def)

text \<open>
  Claim C4, as amended. Posting a manifest whose integers fit the database, whether or not
  the file is already registered, answers \<^verbatim>\<open>{status: 'ok'}\<close>. It replaces the manifest row of
  the file by a new \<^verbatim>\<open>active\<close> row made from the body, and the row of every chunk listed in
  the body by a new row: the checksum declared in the body (the last one when a chunk id is
  listed more than once), \<^verbatim>\<open>received\<close> 0, no \<^verbatim>\<open>received_at\<close>, \<^verbatim>\<open>retry_count\<close> 0. The manifest rows of
  other files, the chunk rows of other files and the rows of this file whose chunk id is not
  listed are left as they were. A manifest with an integer outside the 64-bit range is
  answered by an unhandled exception and changes nothing.
\<close>

theorem registration_replaces_rows:
  "(storable data \<longrightarrow>
      snd (upload_init now data st) = Json 200 [(''status'', JStr ''ok'')] \<and>
      manifests (fst (upload_init now data st)) =
        (manifests st)(ib_file_id data \<mapsto>
           \<lparr>m_filename = ib_filename data, m_size = ib_size data,
            m_chunk_size = ib_chunk_size data, m_total_chunks = length (ib_chunks data),
            m_merkle = [],
            m_priority = (case ib_priority data of None \<Rightarrow> ''normal'' | Some p \<Rightarrow> p),
            m_status = ''active'', m_created_at = now, m_completed_at = None\<rparr>) \<and>
      (\<forall>f c. lookup_chunk (chunks (fst (upload_init now data st))) f c =
         (if f = ib_file_id data \<and> c \<in> cm_chunk_id ` set (ib_chunks data)
          then Some \<lparr>c_file_id = f, c_chunk_id = c,
                     c_checksum = cm_checksum (last (filter (\<lambda>ch. cm_chunk_id ch = c)
                                                        (ib_chunks data))),
                     c_received = 0, c_received_at = None, c_retry_count = 0\<rparr>
          else lookup_chunk (chunks st) f c))) \<and>
   (\<not> storable data \<longrightarrow> upload_init now data st = (st, Unhandled))"
proof (intro conjI impI allI)
  assume s: "storable data"
  show "snd (upload_init now data st) = Json 200 [(''status'', JStr ''ok'')]"
    using s by (rule upload_init_answer)
  show "manifests (fst (upload_init now data st)) =
        (manifests st)(ib_file_id data \<mapsto>
           \<lparr>m_filename = ib_filename data, m_size = ib_size data,
            m_chunk_size = ib_chunk_size data, m_total_chunks = length (ib_chunks data),
            m_merkle = [],
            m_priority = (case ib_priority data of None \<Rightarrow> ''normal'' | Some p \<Rightarrow> p),
            m_status = ''active'', m_created_at = now, m_completed_at = None\<rparr>)"
    using s by (rule upload_init_manifest_rows)
  fix f c
  have last_id: "c \<in> cm_chunk_id ` set (ib_chunks data) \<Longrightarrow>
                 cm_chunk_id (last (filter (\<lambda>ch. cm_chunk_id ch = c) (ib_chunks data))) = c"
  proof -
    assume "c \<in> cm_chunk_id ` set (ib_chunks data)"
    then have ne: "filter (\<lambda>ch. cm_chunk_id ch = c) (ib_chunks data) \<noteq> []"
      by (auto simp: filter_empty_conv)
    then have "last (filter (\<lambda>ch. cm_chunk_id ch = c) (ib_chunks data))
                 \<in> set (filter (\<lambda>ch. cm_chunk_id ch = c) (ib_chunks data))"
      by (rule last_in_set)
    then show ?thesis by simp
  qed
  show "lookup_chunk (chunks (fst (upload_init now data st))) f c =
         (if f = ib_file_id data \<and> c \<in> cm_chunk_id ` set (ib_chunks data)
          then Some \<lparr>c_file_id = f, c_chunk_id = c,
                     c_checksum = cm_checksum (last (filter (\<lambda>ch. cm_chunk_id ch = c)
                                                        (ib_chunks data))),
                     c_received = 0, c_received_at = None, c_retry_count = 0\<rparr>
          else lookup_chunk (chunks st) f c)"
    using s last_id by (simp add: upload_init_chunks lookup_registered new_row_def)
next
  assume "\<not> storable data"
  then show "upload_init now data st = (st, Unhandled)"
    by (rule upload_init_unstorable)
qed

theorem registration_replaces_rows_witness:
  "(let again = upload_init 1 (demo_body [demo_meta 0 ''y'']) (registered ''x'')
    in lookup_chunk (chunks (registered ''x'')) ''f'' 0 = Some (demo_row 0 ''x'' 0) \<and>
       snd again = Json 200 [(''status'', JStr ''ok'')] \<and>
       manifests (fst again) ''f'' = Some ((demo_manifest 1)\<lparr>m_created_at := 1\<rparr>) \<and>
       lookup_chunk (chunks (fst again)) ''f'' 0 = Some (demo_row 0 ''y'' 0) \<and>
       lookup_chunk (chunks (fst again)) ''f'' 1 = None) \<and>
   upload_init 1 (demo_body [demo_meta (2 ^ 63) ''y'']) (registered ''x'') =
     (registered ''x'', Unhandled)"
proof -
  have s: "storable (demo_body [demo_meta 0 ''y''])"
    by (simp add: storable_demo demo_meta_def)
  have u: "\<not> storable (demo_body [demo_meta (2 ^ 63) ''y''])"
    by (simp add: storable_demo demo_meta_def sqlite_int_def)
  have rows: "chunks (registered ''x'') = [demo_row 0 ''x'' 0]"
    by (rule registered_rows)
  from registration_replaces_rows [of "demo_body [demo_meta 0 ''y'']" 1 "registered ''x''"]
       registration_replaces_rows [of "demo_body [demo_meta (2 ^ 63) ''y'']" 1 "registered ''x''"]
       s u rows
  show ?thesis
    by (simp add: Let_def demo_body_def demo_meta_def demo_manifest_def demo_row_def
        lookup_chunk_def)
qed

text \<open>
  Against C4 as stated: the manifest of \<^verbatim>\<open>f\<close> is posted to an empty coordinator and then
  posted again. The second answer is \<^verbatim>\<open>{status: 'ok'}\<close>: it has no status \<^verbatim>\<open>resumed\<close> and no count
  of received chunks.
\<close>

theorem second_registration_answers_ok:
  "(let again = upload_init 1 (demo_body [demo_meta 0 ''x'']) (registered ''x'')
    in manifests (registered ''x'') ''f'' = Some (demo_manifest 1) \<and>
       snd again = Json 200 [(''status'', JStr ''ok'')] \<and>
       snd again \<noteq> Json 200 [(''status'', JStr ''resumed''), (''received_chunks'', JInt 0)])"
  by (simp add: Let_def registered_def upload_init_def storable_def sqlite_int_def demo_body_def
      demo_meta_def demo_manifest_def empty_coordinator_def emit_def)

text \<open>
  Claim C2, evaluated on the code. \<^verbatim>\<open>upload_init\<close> writes the manifest row and the chunk rows
  and commits once, but it writes neither the table \<^verbatim>\<open>transfer_stats\<close> nor the in-memory
  dictionary: both are after the call what they were before, so no statistics record with a
  start time exists for the file.
\<close>

theorem registration_sets_no_stats:
  "stats_table (fst (upload_init now data st)) = stats_table st \<and>
   transfer_stats (fst (upload_init now data st)) = transfer_stats st"
  by (simp add: upload_init_def Let_def emit_def)

text \<open>
  Claim C9, as amended. \<^verbatim>\<open>GET /upload/missing/<file_id>\<close> answers 200 with the chunk ids of
  exactly the rows of the file whose \<^verbatim>\<open>received\<close> flag is 0, in the order in which the table
  holds the rows; nothing sorts them. The list is ascending whenever the rows of the file
  stand in ascending order of chunk id, as they do after one registration that lists its
  chunks in ascending order (\<open>missing_after_registration\<close>).
\<close>

theorem missing_in_row_order:
  "missing file_id st = Json 200 [(''missing'', JList (map JInt (missing_ids file_id st)))] \<and>
   set (missing_ids file_id st) =
     {c. \<exists>r \<in> set (chunks st). c_file_id r = file_id \<and> c_chunk_id r = c \<and> c_received r = 0} \<and>
   (sorted (map c_chunk_id (filter (\<lambda>r. c_file_id r = file_id) (chunks st))) \<longrightarrow>
      sorted (missing_ids file_id st))"
proof (intro conjI impI)
  show "missing file_id st = Json 200 [(''missing'', JList (map JInt (missing_ids file_id st)))]"
    by (simp add: missing_def)
  show "set (missing_ids file_id st) =
     {c. \<exists>r \<in> set (chunks st). c_file_id r = file_id \<and> c_chunk_id r = c \<and> c_received r = 0}"
    by (auto simp: missing_ids_def)
  assume "sorted (map c_chunk_id (filter (\<lambda>r. c_file_id r = file_id) (chunks st)))"
  then show "sorted (missing_ids file_id st)"
    unfolding missing_ids_split by (rule sorted_filter)
qed

theorem missing_in_row_order_witness:
  "(let st = fst (upload_init 0 (demo_body [demo_meta 0 ''x'', demo_meta 1 ''y'']) empty_coordinator)
    in missing ''f'' st = Json 200 [(''missing'', JList [JInt 0, JInt 1])] \<and>
       map c_chunk_id (filter (\<lambda>r. c_file_id r = ''f'') (chunks st)) = [0, 1] \<and>
       sorted (missing_ids ''f'' st))"
proof -
  let ?st = "fst (upload_init 0 (demo_body [demo_meta 0 ''x'', demo_meta 1 ''y'']) empty_coordinator)"
  have rows: "chunks ?st = [demo_row 0 ''x'' 0, demo_row 1 ''y'' 0]"
    by (simp add: demo_registration_rows demo_meta_def empty_coordinator_def
        insert_or_replace_chunk_def new_row_def demo_row_def)
  then have ids: "map c_chunk_id (filter (\<lambda>r. c_file_id r = ''f'') (chunks ?st)) = [0, 1]"
    by (simp add: demo_row_def)
  then have "sorted (map c_chunk_id (filter (\<lambda>r. c_file_id r = ''f'') (chunks ?st)))"
    by simp
  with missing_in_row_order [of "''f''" ?st] have "sorted (missing_ids ''f'' ?st)"
    by blast
  moreover have "missing ''f'' ?st = Json 200 [(''missing'', JList [JInt 0, JInt 1])]"
    using rows by (simp add: missing_def missing_ids_def demo_row_def)
  ultimately show ?thesis
    using ids by (simp add: Let_def)
qed

text \<open>
  Against C9 as stated: a manifest that lists chunk 1 before chunk 0 is registered on an empty
  coordinator; the missing list is \<^verbatim>\<open>[1, 0]\<close>.
\<close>

theorem missing_not_ascending:
  "(let st = fst (upload_init 0 (demo_body [demo_meta 1 ''y'', demo_meta 0 ''x'']) empty_coordinator)
    in missing ''f'' st = Json 200 [(''missing'', JList [JInt 1, JInt 0])] \<and>
       \<not> sorted (missing_ids ''f'' st))"
  by (simp add: Let_def missing_def missing_ids_def demo_registration_rows demo_meta_def
      empty_coordinator_def insert_or_replace_chunk_def new_row_def)

subsection \<open>Chunk rows and manifests in the reachable states\<close>












subsection \<open>What the missing start time does\<close>

text \<open>
  Nothing in \<^verbatim>\<open>app.py\<close> assigns \<^verbatim>\<open>transfer_stats[file_id]['start_time']\<close>. In every state
  reachable from an empty database the start time of every file is therefore \<^verbatim>\<open>None\<close> and no
  chunk row is ever marked received; the chunk ids of the rows fit the database, since
  \<^verbatim>\<open>upload_init\<close> has bound them.
\<close>

lemma stats_of_upd:
  "stats_of (d(file_id \<mapsto> x)) k = (if k = file_id then x else stats_of d k)"
  by (simp add: stats_of_def)

lemma store_chunk_start_time:
  "ms_start_time (stats_of (transfer_stats (fst (store_chunk clk file_id chunk_id data manifest st))) k)
     = ms_start_time (stats_of (transfer_stats st) k)"
  by (simp add: store_chunk_def Let_def err_def stats_of_upd split: option.splits)

lemma ingest_start_time:
  "ms_start_time (stats_of (transfer_stats (fst (ingest H clk file_id chunk_id checksum data st))) k)
     = ms_start_time (stats_of (transfer_stats st) k)"
  by (simp add: ingest_def Let_def err_def store_chunk_start_time stats_of_upd
      split: option.splits)

lemma upload_chunk_start_time:
  "ms_start_time (stats_of (transfer_stats (fst (upload_chunk H clk form st))) k)
     = ms_start_time (stats_of (transfer_stats st) k)"
  by (simp add: upload_chunk_def err_def ingest_start_time split: option.splits prod.splits)

lemma store_chunk_unstarted:
  assumes "ms_start_time (stats_of (transfer_stats st) file_id) = None"
  shows "chunks (fst (store_chunk clk file_id chunk_id data manifest st)) = chunks st"
  using assms by (simp add: store_chunk_def Let_def err_def stats_of_upd split: option.splits)

lemma upload_chunk_unstarted:
  assumes "\<forall>k. ms_start_time (stats_of (transfer_stats st) k) = None"
  shows "chunks (fst (upload_chunk H clk form st)) = chunks st"
  using assms
  by (simp add: upload_chunk_def ingest_def Let_def err_def emit_def store_chunk_unstarted
      split: option.splits prod.splits)

lemma rows_registered:
  "\<forall>r \<in> set rows. c_received r = 0 \<and> sqlite_int (c_chunk_id r) \<Longrightarrow>
   list_all (\<lambda>ch. sqlite_int (cm_chunk_id ch)) chs \<Longrightarrow>
   \<forall>r \<in> set (foldl (insert_or_replace_chunk file_id) rows chs).
      c_received r = 0 \<and> sqlite_int (c_chunk_id r)"
  by (induction chs rule: rev_induct) (auto simp: insert_or_replace_chunk_def new_row_def)

lemma reachable_never_started:
  assumes "reachable H st"
  shows "(\<forall>k. ms_start_time (stats_of (transfer_stats st) k) = None) \<and>
         (\<forall>r \<in> set (chunks st). c_received r = 0 \<and> sqlite_int (c_chunk_id r))"
  using assms
proof (induction rule: reachable.induct)
  case (fresh st)
  then show ?case by (simp add: stats_of_def default_stats_def)
next
  case (init st now data)
  show ?case
  proof (cases "storable data")
    case False
    then show ?thesis
      using init.IH by (simp add: upload_init_unstorable)
  next
    case True
    then have "list_all (\<lambda>ch. sqlite_int (cm_chunk_id ch)) (ib_chunks data)"
      by (simp add: storable_def)
    with init.IH
    have "\<forall>r \<in> set (foldl (insert_or_replace_chunk (ib_file_id data)) (chunks st)
                         (ib_chunks data)). c_received r = 0 \<and> sqlite_int (c_chunk_id r)"
      by (intro rows_registered) simp_all
    moreover have "transfer_stats (fst (upload_init now data st)) = transfer_stats st"
      by (simp add: upload_init_def Let_def emit_def)
    ultimately show ?thesis
      using init.IH True by (simp add: upload_init_chunks)
  qed
next
  case (chunk st clk form)
  then show ?case
    by (simp add: upload_chunk_start_time upload_chunk_unstarted)
next
  case (assembled st file_id)
  then show ?case
    by (simp add: assemble_def Let_def emit_def split: option.splits prod.splits)
next
  case (swept st older)
  then show ?case by (simp add: cleanup_stale_transfers_def)
next
  case (restarted st)
  then show ?case by (simp add: stats_of_def default_stats_def)
qed

text \<open>
  A well-formed upload of a chunk whose row is not marked received, for a file whose start
  time is \<^verbatim>\<open>None\<close>: the bytes are written to the staging file, the in-memory counters are
  raised, and line 208 raises before the commit. The answer is 500, the row stays as it
  was, and nothing is emitted.
\<close>

lemma unstarted_upload:
  assumes "ms_start_time (stats_of (transfer_stats st) file_id) = None"
    and "f_file_id form = Some file_id"
    and "f_chunk_id form = Some chunk_id_text"
    and "py_int chunk_id_text = Some chunk_id"
    and "f_checksum form = Some (H data)"
    and "f_chunk form = Some (part_name, data)"
    and "part_name \<noteq> []" and "data \<noteq> []"
    and "manifests st file_id = Some manifest"
    and "m_status manifest = ''active''"
    and "sqlite_int chunk_id"
    and "lookup_chunk (chunks st) file_id chunk_id = Some row"
    and "c_received row \<noteq> 1"
    and "chunk_path file_id chunk_id \<notin> unwritable st"
  shows "upload_chunk H clk form st =
           (st\<lparr>files := (files st)(chunk_path file_id chunk_id \<mapsto> data),
               transfer_stats := (transfer_stats st)(file_id \<mapsto>
                  (stats_of (transfer_stats st) file_id)
                    \<lparr>ms_last_activity := Some (t_activity clk),
                     ms_bytes_received :=
                       ms_bytes_received (stats_of (transfer_stats st) file_id) + int (length data),
                     ms_chunks_received :=
                       ms_chunks_received (stats_of (transfer_stats st) file_id) + 1\<rparr>)\<rparr>,
            Json 500 [(''error'', JStr ''Internal server error'')])"
  using assms
  by (simp add: upload_chunk_def ingest_def store_chunk_def Let_def err_def)

lemma reachable_upload:
  assumes "reachable H st"
    and "f_file_id form = Some file_id"
    and "f_chunk_id form = Some chunk_id_text"
    and "py_int chunk_id_text = Some chunk_id"
    and "f_checksum form = Some (H data)"
    and "f_chunk form = Some (part_name, data)"
    and "part_name \<noteq> []" and "data \<noteq> []"
    and "manifests st file_id = Some manifest"
    and "m_status manifest = ''active''"
    and "lookup_chunk (chunks st) file_id chunk_id = Some row"
    and "chunk_path file_id chunk_id \<notin> unwritable st"
  shows "upload_chunk H clk form st =
           (st\<lparr>files := (files st)(chunk_path file_id chunk_id \<mapsto> data),
               transfer_stats := (transfer_stats st)(file_id \<mapsto>
                  (stats_of (transfer_stats st) file_id)
                    \<lparr>ms_last_activity := Some (t_activity clk),
                     ms_bytes_received :=
                       ms_bytes_received (stats_of (transfer_stats st) file_id) + int (length data),
                     ms_chunks_received :=
                       ms_chunks_received (stats_of (transfer_stats st) file_id) + 1\<rparr>)\<rparr>,
            Json 500 [(''error'', JStr ''Internal server error'')])"
    and "c_received row = 0"
proof -
  from reachable_never_started [OF assms(1)]
  have unstarted: "ms_start_time (stats_of (transfer_stats st) file_id) = None"
    and rows: "\<forall>r \<in> set (chunks st). c_received r = 0 \<and> sqlite_int (c_chunk_id r)"
    by auto
  have "row \<in> set (chunks st) \<and> c_chunk_id row = chunk_id"
    using assms(11) by (auto simp: lookup_chunk_def find_Some_iff)
  then have r: "c_received row = 0" and i: "sqlite_int chunk_id"
    using rows by auto
  from r show "c_received row = 0" .
  from r have n: "c_received row \<noteq> 1" by simp
  show "upload_chunk H clk form st =
           (st\<lparr>files := (files st)(chunk_path file_id chunk_id \<mapsto> data),
               transfer_stats := (transfer_stats st)(file_id \<mapsto>
                  (stats_of (transfer_stats st) file_id)
                    \<lparr>ms_last_activity := Some (t_activity clk),
                     ms_bytes_received :=
                       ms_bytes_received (stats_of (transfer_stats st) file_id) + int (length data),
                     ms_chunks_received :=
                       ms_chunks_received (stats_of (transfer_stats st) file_id) + 1\<rparr>)\<rparr>,
            Json 500 [(''error'', JStr ''Internal server error'')])"
    by (rule unstarted_upload [where H = H and data = data,
                 OF unstarted assms(2-10) i assms(11) n assms(12)])
qed

lemma registered_reachable: "reachable H (registered declared)"
  unfolding registered_def
  by (rule reachable.init, rule reachable.fresh) (simp_all add: empty_coordinator_def)

lemma registered_manifest: "manifests (registered declared) ''f'' = Some (demo_manifest 1)"
  by (simp add: registered_def upload_init_manifest_rows storable_demo demo_meta_def)
     (simp add: demo_body_def demo_manifest_def empty_coordinator_def)

lemma registered_rest:
  "files (registered declared) = Map.empty \<and> unwritable (registered declared) = {} \<and>
   transfer_stats (registered declared) = Map.empty \<and> stats_table (registered declared) = Map.empty"
  by (simp add: registered_def upload_init_def Let_def empty_coordinator_def emit_def)

text \<open>
  Claim C3, evaluated on the code. The coordinator is in a state it can reach from an empty
  database; the upload has its three fields, a chunk id that \<^verbatim>\<open>int()\<close> reads, a file part with a
  name and with data, and the digest of the data in the checksum field; the manifest is
  active and the chunk has a row; the staging file can be written. These are the conditions
  under which C3 promises a success answer. The answer is 500
  \<^verbatim>\<open>Internal server error\<close>: the bytes have been staged and the in-memory counters raised, and
  then line 208 raises on the start time that nothing has set. The row of the chunk is
  still not marked received and no event has been emitted.
\<close>

theorem accepted_upload_answers_500:
  assumes "reachable H st"
    and "f_file_id form = Some file_id"
    and "f_chunk_id form = Some chunk_id_text"
    and "py_int chunk_id_text = Some chunk_id"
    and "f_checksum form = Some (H data)"
    and "f_chunk form = Some (part_name, data)"
    and "part_name \<noteq> []" and "data \<noteq> []"
    and "manifests st file_id = Some manifest"
    and "m_status manifest = ''active''"
    and "lookup_chunk (chunks st) file_id chunk_id = Some row"
    and "chunk_path file_id chunk_id \<notin> unwritable st"
  shows "upload_chunk H clk form st =
           (st\<lparr>files := (files st)(chunk_path file_id chunk_id \<mapsto> data),
               transfer_stats := (transfer_stats st)(file_id \<mapsto>
                  (stats_of (transfer_stats st) file_id)
                    \<lparr>ms_last_activity := Some (t_activity clk),
                     ms_bytes_received :=
                       ms_bytes_received (stats_of (transfer_stats st) file_id) + int (length data),
                     ms_chunks_received :=
                       ms_chunks_received (stats_of (transfer_stats st) file_id) + 1\<rparr>)\<rparr>,
            Json 500 [(''error'', JStr ''Internal server error'')]) \<and>
         c_received row = 0"
  using reachable_upload [where H = H and data = data, OF assms] by simp

theorem accepted_upload_answers_500_witness:
  "upload_chunk demo_digest demo_clock (demo_form (demo_digest [7])) (registered (demo_digest [7])) =
     ((registered (demo_digest [7]))
        \<lparr>files := [''uploads/f/chunk_000000.bin'' \<mapsto> [7]],
         transfer_stats := [''f'' \<mapsto> default_stats\<lparr>ms_last_activity := Some 12,
                                                  ms_bytes_received := 1,
                                                  ms_chunks_received := 1\<rparr>]\<rparr>,
      Json 500 [(''error'', JStr ''Internal server error'')]) \<and>
   lookup_chunk (chunks (registered (demo_digest [7]))) ''f'' 0 =
     Some (demo_row 0 (demo_digest [7]) 0)"
proof -
  let ?st = "registered (demo_digest [7])"
  let ?form = "demo_form (demo_digest [7])"
  have 1: "reachable demo_digest ?st" by (rule registered_reachable)
  have 2: "f_file_id ?form = Some ''f''" by (simp add: demo_form_def)
  have 3: "f_chunk_id ?form = Some ''0''" by (simp add: demo_form_def)
  have 4: "py_int ''0'' = Some 0" by (rule py_int_zero)
  have 5: "f_checksum ?form = Some (demo_digest [7])" by (simp add: demo_form_def)
  have 6: "f_chunk ?form = Some (''chunk'', [7])" by (simp add: demo_form_def)
  have 7: "''chunk'' \<noteq> []" by simp
  have 8: "[7 :: 8 word] \<noteq> []" by simp
  have 9: "manifests ?st ''f'' = Some (demo_manifest 1)" by (rule registered_manifest)
  have 10: "m_status (demo_manifest 1) = ''active''" by (simp add: demo_manifest_def)
  have 11: "lookup_chunk (chunks ?st) ''f'' 0 = Some (demo_row 0 (demo_digest [7]) 0)"
    by (simp add: registered_rows lookup_chunk_def demo_row_def)
  have 12: "chunk_path ''f'' 0 \<notin> unwritable ?st" by (simp add: registered_rest)
  from accepted_upload_answers_500
         [where H = demo_digest and data = "[7]" and clk = demo_clock,
          OF 1 2 3 4 5 6 7 8 9 10 11 12] 11
  show ?thesis
    by (simp add: registered_rest chunk_path_f0 stats_of_def default_stats_def demo_clock_def)
qed



subsection \<open>The checksum that is compared\<close>

lemma lookup_redeclare:
  "lookup_chunk (map (\<lambda>r. r\<lparr>c_checksum := g (c_file_id r) (c_chunk_id r)\<rparr>) rows) f c =
     map_option (\<lambda>r. r\<lparr>c_checksum := g (c_file_id r) (c_chunk_id r)\<rparr>) (lookup_chunk rows f c)"
  by (induction rows) (simp_all add: lookup_chunk_def)

lemma count_redeclare:
  "count_received (map (\<lambda>r. r\<lparr>c_checksum := g (c_file_id r) (c_chunk_id r)\<rparr>) rows) f =
     count_received rows f"
  by (induction rows) (simp_all add: count_received_def)

lemma mark_redeclare:
  "mark_received now f c (map (\<lambda>r. r\<lparr>c_checksum := g (c_file_id r) (c_chunk_id r)\<rparr>) rows) =
     map (\<lambda>r. r\<lparr>c_checksum := g (c_file_id r) (c_chunk_id r)\<rparr>) (mark_received now f c rows)"
  by (induction rows) (simp_all add: mark_received_def)

lemma store_chunk_redeclare:
  "store_chunk clk file_id chunk_id data manifest (redeclare g st) =
     (redeclare g (fst (store_chunk clk file_id chunk_id data manifest st)),
      snd (store_chunk clk file_id chunk_id data manifest st))"
  by (simp add: store_chunk_def redeclare_def Let_def emit_def mark_redeclare count_redeclare
      split: option.splits)

lemma ingest_redeclare:
  "ingest H clk file_id chunk_id checksum data (redeclare g st) =
     (redeclare g (fst (ingest H clk file_id chunk_id checksum data st)),
      snd (ingest H clk file_id chunk_id checksum data st))"
proof (cases "H data \<noteq> checksum \<or> manifests st file_id = None \<or>
              m_status (the (manifests st file_id)) \<noteq> ''active'' \<or> \<not> sqlite_int chunk_id \<or>
              lookup_chunk (chunks st) file_id chunk_id = None \<or>
              c_received (the (lookup_chunk (chunks st) file_id chunk_id)) = 1")
  case True
  then show ?thesis
    by (auto simp: ingest_def redeclare_def Let_def emit_def lookup_redeclare count_redeclare
        split: option.splits)
next
  case False
  then obtain manifest row where
    "H data = checksum" "manifests st file_id = Some manifest" "m_status manifest = ''active''"
    "sqlite_int chunk_id" "lookup_chunk (chunks st) file_id chunk_id = Some row"
    "c_received row \<noteq> 1"
    by auto
  then have "ingest H clk file_id chunk_id checksum data st =
               store_chunk clk file_id chunk_id data manifest st"
    and "ingest H clk file_id chunk_id checksum data (redeclare g st) =
               store_chunk clk file_id chunk_id data manifest (redeclare g st)"
    by (simp_all add: ingest_def redeclare_def lookup_redeclare)
  then show ?thesis
    by (simp add: store_chunk_redeclare)
qed

lemma upload_chunk_redeclare:
  "upload_chunk H clk form (redeclare g st) =
     (redeclare g (fst (upload_chunk H clk form st)), snd (upload_chunk H clk form st))"
  by (simp add: upload_chunk_def ingest_redeclare split: option.splits prod.splits)

lemma store_chunk_files:
  "files (fst (store_chunk clk file_id chunk_id data manifest st)) p \<noteq> files st p \<Longrightarrow>
   p = chunk_path file_id chunk_id \<and>
   files (fst (store_chunk clk file_id chunk_id data manifest st)) p = Some data"
  by (simp add: store_chunk_def Let_def err_def split: option.splits if_splits)

lemma ingest_files:
  "files (fst (ingest H clk file_id chunk_id checksum data st)) p \<noteq> files st p \<Longrightarrow>
   checksum = H data \<and> p = chunk_path file_id chunk_id \<and>
   files (fst (ingest H clk file_id chunk_id checksum data st)) p = Some data"
  using store_chunk_files [of clk file_id chunk_id data _ st p]
  by (auto simp: ingest_def Let_def err_def split: option.splits if_splits)

text \<open>
  Claim C5, as amended. The handler compares the digest of the uploaded bytes with the
  checksum field of the form and with nothing else. First, the checksums that the chunk
  rows hold play no part: with any other checksums in the rows the handler gives the same
  answer and makes the same changes. Second, whenever the handler changes a file, that
  file is the staging file of the chunk named in the form, it holds the uploaded bytes, and
  the digest of these bytes is the checksum field.
\<close>

theorem checksum_field_decides:
  "upload_chunk H clk form (redeclare g st) =
     (redeclare g (fst (upload_chunk H clk form st)), snd (upload_chunk H clk form st)) \<and>
   (\<forall>p. files (fst (upload_chunk H clk form st)) p \<noteq> files st p \<longrightarrow>
      (\<exists>file_id chunk_id_text chunk_id part_name data.
         f_file_id form = Some file_id \<and> f_chunk_id form = Some chunk_id_text \<and>
         py_int chunk_id_text = Some chunk_id \<and> f_chunk form = Some (part_name, data) \<and>
         p = chunk_path file_id chunk_id \<and>
         files (fst (upload_chunk H clk form st)) p = Some data \<and>
         f_checksum form = Some (H data)))"
proof (intro conjI allI impI)
  show "upload_chunk H clk form (redeclare g st) =
     (redeclare g (fst (upload_chunk H clk form st)), snd (upload_chunk H clk form st))"
    by (rule upload_chunk_redeclare)
next
  fix p
  assume changed: "files (fst (upload_chunk H clk form st)) p \<noteq> files st p"
  then obtain file_id chunk_id_text checksum chunk_id part_name data where
    fields: "f_file_id form = Some file_id" "f_chunk_id form = Some chunk_id_text"
      "f_checksum form = Some checksum" "py_int chunk_id_text = Some chunk_id"
      "f_chunk form = Some (part_name, data)"
    and run: "upload_chunk H clk form st = ingest H clk file_id chunk_id checksum data st"
    by (auto simp: upload_chunk_def err_def split: option.splits prod.splits if_splits)
  from changed run
  have "files (fst (ingest H clk file_id chunk_id checksum data st)) p \<noteq> files st p"
    by simp
  then have "checksum = H data \<and> p = chunk_path file_id chunk_id \<and>
             files (fst (ingest H clk file_id chunk_id checksum data st)) p = Some data"
    by (rule ingest_files)
  with fields run
  show "\<exists>file_id chunk_id_text chunk_id part_name data.
         f_file_id form = Some file_id \<and> f_chunk_id form = Some chunk_id_text \<and>
         py_int chunk_id_text = Some chunk_id \<and> f_chunk form = Some (part_name, data) \<and>
         p = chunk_path file_id chunk_id \<and>
         files (fst (upload_chunk H clk form st)) p = Some data \<and>
         f_checksum form = Some (H data)"
    by auto
qed

lemma demo_upload:
  "upload_chunk demo_digest demo_clock (demo_form (demo_digest [7])) (registered declared) =
     ((registered declared)
        \<lparr>files := [''uploads/f/chunk_000000.bin'' \<mapsto> [7]],
         transfer_stats := [''f'' \<mapsto> default_stats\<lparr>ms_last_activity := Some 12,
                                                  ms_bytes_received := 1,
                                                  ms_chunks_received := 1\<rparr>]\<rparr>,
      Json 500 [(''error'', JStr ''Internal server error'')])"
proof -
  let ?st = "registered declared"
  let ?form = "demo_form (demo_digest [7])"
  have 1: "reachable demo_digest ?st" by (rule registered_reachable)
  have 2: "f_file_id ?form = Some ''f''" by (simp add: demo_form_def)
  have 3: "f_chunk_id ?form = Some ''0''" by (simp add: demo_form_def)
  have 4: "py_int ''0'' = Some 0" by (rule py_int_zero)
  have 5: "f_checksum ?form = Some (demo_digest [7])" by (simp add: demo_form_def)
  have 6: "f_chunk ?form = Some (''chunk'', [7])" by (simp add: demo_form_def)
  have 7: "''chunk'' \<noteq> []" by simp
  have 8: "[7 :: 8 word] \<noteq> []" by simp
  have 9: "manifests ?st ''f'' = Some (demo_manifest 1)" by (rule registered_manifest)
  have 10: "m_status (demo_manifest 1) = ''active''" by (simp add: demo_manifest_def)
  have 11: "lookup_chunk (chunks ?st) ''f'' 0 = Some (demo_row 0 declared 0)"
    by (simp add: registered_rows lookup_chunk_def demo_row_def)
  have 12: "chunk_path ''f'' 0 \<notin> unwritable ?st" by (simp add: registered_rest)
  from reachable_upload(1)
         [where H = demo_digest and data = "[7]" and clk = demo_clock,
          OF 1 2 3 4 5 6 7 8 9 10 11 12]
  show ?thesis
    by (simp add: registered_rest chunk_path_f0 stats_of_def default_stats_def demo_clock_def)
qed

theorem checksum_field_decides_witness:
  "(let st = registered ''declared at init'';
        form = demo_form (demo_digest [7]);
        r = upload_chunk demo_digest demo_clock form st
    in files st ''uploads/f/chunk_000000.bin'' = None \<and>
       files (fst r) ''uploads/f/chunk_000000.bin'' = Some [7] \<and>
       (\<exists>file_id chunk_id_text chunk_id part_name data.
          f_file_id form = Some file_id \<and> f_chunk_id form = Some chunk_id_text \<and>
          py_int chunk_id_text = Some chunk_id \<and> f_chunk form = Some (part_name, data) \<and>
          ''uploads/f/chunk_000000.bin'' = chunk_path file_id chunk_id \<and>
          files (fst r) ''uploads/f/chunk_000000.bin'' = Some data \<and>
          f_checksum form = Some (demo_digest data)) \<and>
       upload_chunk demo_digest demo_clock form (redeclare (\<lambda>f c. ''another'') st) =
         (redeclare (\<lambda>f c. ''another'') (fst r), snd r))"
proof -
  let ?st = "registered ''declared at init''"
  let ?form = "demo_form (demo_digest [7])"
  let ?r = "upload_chunk demo_digest demo_clock ?form ?st"
  have before: "files ?st ''uploads/f/chunk_000000.bin'' = None"
    by (simp add: registered_rest)
  have after: "files (fst ?r) ''uploads/f/chunk_000000.bin'' = Some [7]"
    by (simp add: demo_upload)
  have changed: "files (fst ?r) ''uploads/f/chunk_000000.bin'' \<noteq>
                   files ?st ''uploads/f/chunk_000000.bin''"
    by (simp add: before after)
  from checksum_field_decides [of demo_digest demo_clock ?form "\<lambda>f c. ''another''" ?st]
  have same: "upload_chunk demo_digest demo_clock ?form (redeclare (\<lambda>f c. ''another'') ?st) =
                (redeclare (\<lambda>f c. ''another'') (fst ?r), snd ?r)"
    and staged: "\<forall>p. files (fst ?r) p \<noteq> files ?st p \<longrightarrow>
      (\<exists>file_id chunk_id_text chunk_id part_name data.
         f_file_id ?form = Some file_id \<and> f_chunk_id ?form = Some chunk_id_text \<and>
         py_int chunk_id_text = Some chunk_id \<and> f_chunk ?form = Some (part_name, data) \<and>
         p = chunk_path file_id chunk_id \<and>
         files (fst ?r) p = Some data \<and>
         f_checksum ?form = Some (demo_digest data))"
    by blast+
  from staged changed
  have "\<exists>file_id chunk_id_text chunk_id part_name data.
         f_file_id ?form = Some file_id \<and> f_chunk_id ?form = Some chunk_id_text \<and>
         py_int chunk_id_text = Some chunk_id \<and> f_chunk ?form = Some (part_name, data) \<and>
         ''uploads/f/chunk_000000.bin'' = chunk_path file_id chunk_id \<and>
         files (fst ?r) ''uploads/f/chunk_000000.bin'' = Some data \<and>
         f_checksum ?form = Some (demo_digest data)"
    by blast
  with same before after show ?thesis
    unfolding Let_def by blast
qed

text \<open>
  Against C5 as stated: chunk 0 of \<^verbatim>\<open>f\<close> is registered with the declared checksum
  \<^verbatim>\<open>declared at init\<close>. An upload of chunk 0 brings other bytes, with the digest of these bytes
  in its checksum field. The verification of lines 122 to 144 lets the upload pass: the
  bytes are written to the staging file of chunk 0, although their digest is not the
  checksum that the row declares. The answer is 500, for the start time that is not set,
  and not the 400 of a failed verification.
\<close>

theorem verification_ignores_declared_checksum:
  "(let st = registered ''declared at init'';
        r = upload_chunk demo_digest demo_clock (demo_form (demo_digest [7])) st
    in lookup_chunk (chunks st) ''f'' 0 = Some (demo_row 0 ''declared at init'' 0) \<and>
       demo_digest [7] \<noteq> ''declared at init'' \<and>
       files st ''uploads/f/chunk_000000.bin'' = None \<and>
       files (fst r) ''uploads/f/chunk_000000.bin'' = Some [7] \<and>
       snd r = Json 500 [(''error'', JStr ''Internal server error'')])"
proof -
  have differs: "demo_digest [7] \<noteq> ''declared at init''"
    by (simp add: demo_digest_def)
  have row: "lookup_chunk (chunks (registered ''declared at init'')) ''f'' 0 =
               Some (demo_row 0 ''declared at init'' 0)"
    by (simp add: registered_rows lookup_chunk_def demo_row_def)
  have before: "files (registered ''declared at init'') ''uploads/f/chunk_000000.bin'' = None"
    by (simp add: registered_rest)
  have after: "files (fst (upload_chunk demo_digest demo_clock (demo_form (demo_digest [7]))
                             (registered ''declared at init'')))
                 ''uploads/f/chunk_000000.bin'' = Some [7]"
    and answer: "snd (upload_chunk demo_digest demo_clock (demo_form (demo_digest [7]))
                        (registered ''declared at init'')) =
                 Json 500 [(''error'', JStr ''Internal server error'')]"
    by (simp_all add: demo_upload)
  from differs row before after answer show ?thesis
    unfolding Let_def by blast
qed



section \<open>Properties of the sender\<close>


end
